theory Spec2Isabelle
  imports Main
begin

section \<open>JavaScript strings and numbers\<close>

text \<open>
  Strings are \<^typ>\<open>string\<close>: lists of 8-bit characters, read as the code units
  \<open>0..255\<close> of a JavaScript string. Numbers that the services compute with are
  millisecond counts and small integers; they are modelled by \<^typ>\<open>int\<close>, which is exact
  for every magnitude below \<open>2^53\<close>. The result of \<open>parseInt\<close> is an \<^typ>\<open>int option\<close>
  where \<open>None\<close> is \<open>NaN\<close>; a property read that yields \<open>undefined\<close> is \<open>None\<close> too.
\<close>

definition startsWith :: "string \<Rightarrow> string \<Rightarrow> bool" where
  "startsWith s p = (take (length p) s = p)"

text \<open>\<open>s.split(d)\<close> for a one-character separator.\<close>

fun split_on :: "char \<Rightarrow> string \<Rightarrow> string list" where
  "split_on d [] = [[]]"
| "split_on d (c # cs) =
     (if c = d then [] # split_on d cs
      else (case split_on d cs of
              [] \<Rightarrow> [[c]]
            | w # ws \<Rightarrow> (c # w) # ws))"

text \<open>Array indexing \<open>xs[i]\<close>: \<open>undefined\<close> out of range.\<close>

definition nth_opt :: "'a list \<Rightarrow> nat \<Rightarrow> 'a option" where
  "nth_opt xs i = (if i < length xs then Some (xs ! i) else None)"

text \<open>
  The white space of \<open>\s\<close>, of \<open>trim\<close> and of \<open>parseInt\<close> (white space and line
  terminators), restricted to the code units below 256: TAB, LF, VT, FF, CR, SP, NBSP.
\<close>

definition is_ws :: "char \<Rightarrow> bool" where
  "is_ws c = ((of_char c :: nat) \<in> {9, 10, 11, 12, 13, 32, 160})"

definition digit_val :: "char \<Rightarrow> nat option" where
  "digit_val c =
     (let n = (of_char c :: nat) in
      if 48 \<le> n \<and> n \<le> 57 then Some (n - 48)
      else if 97 \<le> n \<and> n \<le> 122 then Some (n - 87)
      else if 65 \<le> n \<and> n \<le> 90 then Some (n - 55)
      else None)"

definition is_radix_digit :: "nat \<Rightarrow> char \<Rightarrow> bool" where
  "is_radix_digit r c = (case digit_val c of None \<Rightarrow> False | Some v \<Rightarrow> v < r)"

definition radix_value :: "nat \<Rightarrow> string \<Rightarrow> nat" where
  "radix_value r ds = foldl (\<lambda>acc c. acc * r + the (digit_val c)) 0 ds"

text \<open>
  \<open>parseInt(s)\<close> without a radix: leading white space is skipped, a sign is read, a
  \<open>0x\<close> or \<open>0X\<close> prefix selects radix 16, and the longest run of digits is the value;
  no digit at all gives \<open>NaN\<close>.
\<close>

definition parseInt :: "string \<Rightarrow> int option" where
  "parseInt s =
     (let s1 = dropWhile is_ws s;
          neg = startsWith s1 ''-'';
          s2 = (if startsWith s1 ''-'' \<or> startsWith s1 ''+'' then tl s1 else s1);
          hex = (startsWith s2 ''0x'' \<or> startsWith s2 ''0X'');
          r = (if hex then 16 else 10);
          s3 = (if hex then drop 2 s2 else s2);
          ds = takeWhile (is_radix_digit r) s3
      in if ds = [] then None
         else Some ((if neg then - 1 else 1) * int (radix_value r ds)))"

text \<open>\<open>parseInt(undefined)\<close> reads the text \<open>undefined\<close> and is \<open>NaN\<close>.\<close>

fun parseInt_opt :: "string option \<Rightarrow> int option" where
  "parseInt_opt None = None"
| "parseInt_opt (Some s) = parseInt s"

text \<open>\<open>x > k\<close> on numbers: every comparison with \<open>NaN\<close> is false.\<close>

fun num_gt :: "int option \<Rightarrow> int \<Rightarrow> bool" where
  "num_gt None k = False"
| "num_gt (Some x) k = (x > k)"

definition digit_char :: "nat \<Rightarrow> char" where
  "digit_char d =
     (if d = 0 then CHR ''0'' else if d = 1 then CHR ''1'' else if d = 2 then CHR ''2''
      else if d = 3 then CHR ''3'' else if d = 4 then CHR ''4'' else if d = 5 then CHR ''5''
      else if d = 6 then CHR ''6'' else if d = 7 then CHR ''7'' else if d = 8 then CHR ''8''
      else CHR ''9'')"

text \<open>
  The decimal text of a non-negative integer, as a template literal renders
  \<open>Date.now()\<close>.
\<close>

fun show_nat :: "nat \<Rightarrow> string" where
  "show_nat n = (if n < 10 then [digit_char n]
                 else show_nat (n div 10) @ [digit_char (n mod 10)])"

declare show_nat.simps [simp del]

text \<open>\<open>a || b\<close> on strings: the empty string and \<open>undefined\<close> are falsy.\<close>

fun or_else :: "string option \<Rightarrow> string \<Rightarrow> string" where
  "or_else None d = d"
| "or_else (Some s) d = (if s = [] then d else s)"

fun join_lines :: "string list \<Rightarrow> string" where
  "join_lines [] = []"
| "join_lines [l] = l"
| "join_lines (l # ls) = l @ [CHR 0x0A] @ join_lines ls"

text \<open>
  A \<open>Date\<close> holds a time value only within \<open>\<plusminus>8.64e15\<close> ms of the epoch; outside of
  it (and for \<open>NaN\<close>) the date is invalid and \<open>toISOString\<close> throws a \<open>RangeError\<close>.
  The ISO text of a valid time value \<open>tv\<close> is kept symbolic as \<open>ISOString tv\<close>
  (the rendering is injective); \<open>ProviderString\<close> is a time text that a remote
  provider has sent.
\<close>

datatype time_string = ISOString int | ProviderString string

definition valid_time :: "int \<Rightarrow> bool" where
  "valid_time tv = (\<bar>tv\<bar> \<le> 8640000000000000)"

definition toISOString :: "int option \<Rightarrow> time_string option" where
  "toISOString tv =
     (case tv of
        None \<Rightarrow> None
      | Some v \<Rightarrow> if valid_time v then Some (ISOString v) else None)"


section \<open>Data model\<close>

record CallRequest =
  to_number :: string
  audio_url :: string
  caller_id :: "string option"

text \<open>
  The object that a placement returns. \<open>TwilioCallResponse\<close> has the keys \<open>success\<close>,
  \<open>call_id\<close>, \<open>message\<close>, \<open>error\<close>; the secondary adapter's \<open>CallResponse\<close> has
  \<open>status\<close> and \<open>simulation\<close> besides. The route holds either in one variable, so one
  record stands for both; a key that the object literal does not write is \<open>None\<close>.
\<close>

record CallResponse =
  success :: bool
  call_id :: "string option"
  status :: "string option"
  message :: "string option"
  error :: "string option"
  simulation :: "bool option"

text \<open>
  The object that a status lookup returns: \<open>TwilioCallStatus\<close> (\<open>call_id\<close>, \<open>status\<close>,
  \<open>duration\<close>, \<open>direction\<close>, \<open>from\<close>, \<open>to\<close>) or the secondary adapter's \<open>CallStatus\<close>
  (\<open>call_id\<close>, \<open>status\<close>, \<open>duration\<close>, \<open>start_time\<close>, \<open>end_time\<close>). Fields carry the
  prefix \<open>cs_\<close>; an absent or \<open>undefined\<close> key is \<open>None\<close>.
\<close>

record CallStatus =
  cs_call_id :: string
  cs_status :: string
  cs_duration :: "int option"
  cs_direction :: "string option"
  cs_from :: "string option"
  cs_to :: "string option"
  cs_start_time :: "time_string option"
  cs_end_time :: "time_string option"


section \<open>Primary telephony adapter: services/twilio.ts\<close>

text \<open>
  The provider's client is opaque: \<open>calls_create\<close> answers the creation of a call
  (TwiML, to, from) with the call's SID, \<open>calls_fetch\<close> answers a lookup; \<open>None\<close> is
  a rejected promise (any exception).
\<close>

record twilio_call =
  tc_sid :: string
  tc_status :: string
  tc_duration :: "int option"
  tc_direction :: "string option"
  tc_from :: "string option"
  tc_to :: "string option"

record twilio_client =
  calls_create :: "string \<times> string \<times> string \<Rightarrow> string option"
  calls_fetch :: "string \<Rightarrow> twilio_call option"

record TwilioService =
  tw_accountSid :: string
  tw_authToken :: string
  tw_phoneNumber :: string
  tw_webhookUrl :: string
  tw_client :: "twilio_client option"

text \<open>
  The constructor reads the four environment variables (\<open>''''\<close> when unset) and calls
  the library's factory, which may throw (\<open>None\<close>), only when credentials and a source
  number are there.
\<close>

definition TwilioService_new ::
  "string \<Rightarrow> string \<Rightarrow> string \<Rightarrow> string \<Rightarrow> (string \<Rightarrow> string \<Rightarrow> twilio_client option)
     \<Rightarrow> TwilioService" where
  "TwilioService_new sid token phone hook factory =
     \<lparr>tw_accountSid = sid, tw_authToken = token, tw_phoneNumber = phone, tw_webhookUrl = hook,
      tw_client = (if sid = [] \<or> token = [] then None
                   else if phone = [] then None
                   else factory sid token)\<rparr>"

definition twilio_formatPhoneNumber :: "string \<Rightarrow> string" where
  "twilio_formatPhoneNumber phoneNumber =
     (let cleaned = filter (\<lambda>c. \<not> (is_ws c \<or> c = CHR ''-'' \<or> c = CHR ''('' \<or> c = CHR '')''))
                      phoneNumber
      in if \<not> startsWith cleaned ''+'' then
           (if length cleaned = 10 \<and> (case cleaned of [] \<Rightarrow> False | c # _ \<Rightarrow> c \<in> set ''6789'')
              then ''+91'' @ cleaned
            else if length cleaned = 11 \<and> startsWith cleaned ''1'' then ''+'' @ cleaned
            else ''+1'' @ cleaned)
         else cleaned)"

text \<open>
  \<open>now\<close> is the value of \<open>Date.now()\<close> and \<open>rnd\<close> the text
  \<open>Math.random().toString(36).substr(2, 9)\<close> at the moment of the simulated placement.
\<close>

definition twilio_simulateCall :: "nat \<Rightarrow> string \<Rightarrow> CallRequest \<Rightarrow> CallResponse" where
  "twilio_simulateCall now rnd request =
     (let callId = ''sim_twilio_'' @ show_nat now @ ''_'' @ rnd
      in \<lparr>success = True, call_id = Some callId, status = None,
          message = Some (''Simulated call to '' @ to_number request),
          error = None, simulation = None\<rparr>)"

definition twilio_getSimulatedCallStatus :: "TwilioService \<Rightarrow> nat \<Rightarrow> string \<Rightarrow> CallStatus option" where
  "twilio_getSimulatedCallStatus svc now callId =
     (if \<not> startsWith callId ''sim_twilio_'' then None
      else
        let timestamp = parseInt_opt (nth_opt (split_on (CHR ''_'') callId) 2);
            elapsed = map_option (\<lambda>t. int now - t) timestamp;
            st = (if num_gt elapsed 8000 then ''completed''
                  else if num_gt elapsed 6000 then ''in-progress''
                  else if num_gt elapsed 2000 then ''ringing''
                  else ''queued'')
        in Some \<lparr>cs_call_id = callId, cs_status = st,
                 cs_duration = (if st = ''completed'' then map_option (\<lambda>e. e div 1000) elapsed
                                else None),
                 cs_direction = Some ''outbound-api'',
                 cs_from = Some (or_else (Some (tw_phoneNumber svc)) ''+14722138384''),
                 cs_to = Some ''+919024266007'',
                 cs_start_time = None, cs_end_time = None\<rparr>)"

text \<open>
  The ordered stage list of the simulated progression (\<open>statuses\<close> in
  \<open>startCallSimulation\<close>), and the position of a status in a stage list.
\<close>

definition twilio_statuses :: "string list" where
  "twilio_statuses = [''queued'', ''ringing'', ''in-progress'', ''completed'']"

fun stage_index :: "string list \<Rightarrow> string \<Rightarrow> nat" where
  "stage_index [] s = 0"
| "stage_index (x # xs) s = (if x = s then 0 else Suc (stage_index xs s))"


definition generateSimpleTwiML :: "string \<Rightarrow> string" where
  \<open>generateSimpleTwiML toNumber = join_lines
     [''<?xml version="1.0" encoding="UTF-8"?>'',
      ''<Response>'',
      ''    <Say voice="alice" rate="medium">'',
      ''        Hello! This is your Voice Over AI Agent successfully calling you through Twilio. '',
      ''        You are receiving this call on '' @ toNumber
        @ '' from your virtual number plus 1 4 7 2 2 1 3 8 3 8 4.'',
      ''        <break time="1s"/>'',
      ''        This demonstrates the complete integration between ElevenLabs AI voice generation and Twilio telephony services.'',
      ''        <break time="1s"/>'',
      ''        Your Voice AI system is working perfectly and can now make real phone calls with AI-generated speech.'',
      ''        <break time="1s"/>'',
      ''        This call proves that all components are functioning correctly including voice generation, phone number formatting, and call placement.'',
      ''        <break time="1s"/>'',
      ''        Thank you for testing your Voice Over AI Agent. The system is ready for production use. Goodbye!'',
      ''    </Say>'',
      ''</Response>'']\<close>

text \<open>
  The three replacements and the trim of \<open>generateCustomTwiML\<close>: \<open>/[<>&]/g\<close> deleted,
  \<open>/\n/g\<close> to a space, each maximal run of white space (\<open>/\s+/g\<close>) to one space.
\<close>

definition strip_unsafe :: "string \<Rightarrow> string" where
  "strip_unsafe s = filter (\<lambda>c. c \<noteq> CHR ''<'' \<and> c \<noteq> CHR ''>'' \<and> c \<noteq> CHR ''&'') s"

definition newlines_to_spaces :: "string \<Rightarrow> string" where
  "newlines_to_spaces s = map (\<lambda>c. if c = CHR 0x0A then CHR '' '' else c) s"

function collapse_ws :: "string \<Rightarrow> string" where
  "collapse_ws [] = []"
| "collapse_ws (c # cs) =
     (if is_ws c then CHR '' '' # collapse_ws (dropWhile is_ws cs)
      else c # collapse_ws cs)"
  by pat_completeness auto
termination
  by (relation "measure length") (auto simp: le_imp_less_Suc length_dropWhile_le)

definition trim :: "string \<Rightarrow> string" where
  "trim s = rev (dropWhile is_ws (rev (dropWhile is_ws s)))"

definition cleanText :: "string \<Rightarrow> string" where
  "cleanText text = trim (collapse_ws (newlines_to_spaces (strip_unsafe text)))"




definition generateCustomTwiML :: "string \<Rightarrow> string" where
  \<open>generateCustomTwiML text = join_lines
     [''<?xml version="1.0" encoding="UTF-8"?>'',
      ''<Response>'',
      ''    <Say voice="alice" rate="medium">'',
      ''        Hello! This is your Voice Over AI Agent. Here is your message: ''
        @ cleanText text @ ''. '',
      ''        <break time="1s"/>'',
      ''        Thank you for using our service. Goodbye!'',
      ''    </Say>'',
      ''</Response>'']\<close>

definition simulateCallWithText :: "nat \<Rightarrow> string \<Rightarrow> string \<Rightarrow> string \<Rightarrow> CallResponse" where
  \<open>simulateCallWithText now rnd text to_num =
     (let callId = ''sim_'' @ show_nat now @ ''_'' @ rnd
      in \<lparr>success = True, call_id = Some callId, status = None,
          message = Some (''Simulated call with custom text placed to '' @ to_num
                          @ ''. In a real scenario, this would read: "'' @ take 50 text
                          @ (if length text > 50 then ''...'' else [])
                          @ ''"''),
          error = None, simulation = None\<rparr>)\<close>

definition twilio_placeCall :: "TwilioService \<Rightarrow> nat \<Rightarrow> string \<Rightarrow> CallRequest \<Rightarrow> CallResponse" where
  "twilio_placeCall svc now rnd request =
     (case tw_client svc of
        None \<Rightarrow> twilio_simulateCall now rnd request
      | Some c \<Rightarrow>
          let toNumber = twilio_formatPhoneNumber (to_number request);
              fromNumber = or_else (caller_id request) (tw_phoneNumber svc);
              twiml = generateSimpleTwiML (to_number request)
          in (case calls_create c (twiml, toNumber, fromNumber) of
                Some sid \<Rightarrow>
                  \<lparr>success = True, call_id = Some sid, status = None,
                   message = Some (''Call placed successfully to '' @ toNumber),
                   error = None, simulation = None\<rparr>
              | None \<Rightarrow> twilio_simulateCall now rnd request))"

definition placeCallWithText ::
  "TwilioService \<Rightarrow> nat \<Rightarrow> string \<Rightarrow> string \<Rightarrow> string \<Rightarrow> string option \<Rightarrow> CallResponse" where
  "placeCallWithText svc now rnd text to_num caller =
     (case tw_client svc of
        None \<Rightarrow> simulateCallWithText now rnd text to_num
      | Some c \<Rightarrow>
          let toNumber = twilio_formatPhoneNumber to_num;
              fromNumber = or_else caller (tw_phoneNumber svc);
              twiml = generateCustomTwiML text
          in (case calls_create c (twiml, toNumber, fromNumber) of
                Some sid \<Rightarrow>
                  \<lparr>success = True, call_id = Some sid, status = None,
                   message = Some (''Call placed successfully to '' @ toNumber
                                   @ '' with custom message''),
                   error = None, simulation = None\<rparr>
              | None \<Rightarrow> simulateCallWithText now rnd text to_num))"

definition twilio_getCallStatus :: "TwilioService \<Rightarrow> nat \<Rightarrow> string \<Rightarrow> CallStatus option" where
  "twilio_getCallStatus svc now callId =
     (case tw_client svc of
        None \<Rightarrow> twilio_getSimulatedCallStatus svc now callId
      | Some c \<Rightarrow>
          (case calls_fetch c callId of
             None \<Rightarrow> None
           | Some call \<Rightarrow>
               Some \<lparr>cs_call_id = tc_sid call, cs_status = tc_status call,
                     cs_duration = tc_duration call, cs_direction = tc_direction call,
                     cs_from = tc_from call, cs_to = tc_to call,
                     cs_start_time = None, cs_end_time = None\<rparr>))"


section \<open>Secondary telephony adapter: services/exotel.ts\<close>

text \<open>
  The provider's HTTP interface is opaque. \<open>ex_connect\<close> answers the POST of a
  connect payload with the \<open>Call.Sid\<close> and \<open>Call.Status\<close> of the reply,
  \<open>ex_fetch\<close> answers the GET of a call; \<open>None\<close> is any exception (a rejected
  request, or a reply without a \<open>Call\<close> object). The payload's \<open>Url\<close> is built from
  the server URL and the encoded audio URL, so the payload carries the audio URL.
\<close>

record exotel_payload =
  ep_From :: string
  ep_To :: string
  ep_audio :: string
  ep_CallerId :: string

record exotel_call =
  ec_Sid :: string
  ec_Status :: string
  ec_Duration :: "string option"
  ec_StartTime :: "string option"
  ec_EndTime :: "string option"

record ExotelService =
  ex_apiKey :: string
  ex_apiToken :: string
  ex_accountSid :: string
  ex_baseUrl :: string
  ex_virtualNumber :: string
  ex_connect :: "exotel_payload \<Rightarrow> (string option \<times> string option) option"
  ex_fetch :: "string \<Rightarrow> exotel_call option"

text \<open>
  The constructor reads the five environment variables (empty when unset; the base
  URL has a default) and is given the provider's HTTP interface.
\<close>

definition ExotelService_new ::
  "string \<Rightarrow> string \<Rightarrow> string \<Rightarrow> string \<Rightarrow> string
     \<Rightarrow> (exotel_payload \<Rightarrow> (string option \<times> string option) option)
     \<Rightarrow> (string \<Rightarrow> exotel_call option) \<Rightarrow> ExotelService" where
  "ExotelService_new key token sid base vnum connect fetch =
     \<lparr>ex_apiKey = key, ex_apiToken = token, ex_accountSid = sid,
      ex_baseUrl = or_else (Some base) ''https://api.exotel.com/v1/Accounts'',
      ex_virtualNumber = vnum, ex_connect = connect, ex_fetch = fetch\<rparr>"

definition ex_unconfigured :: "ExotelService \<Rightarrow> bool" where
  "ex_unconfigured svc = (ex_apiKey svc = [] \<or> ex_apiToken svc = [] \<or> ex_accountSid svc = [])"

definition is_digit :: "char \<Rightarrow> bool" where
  "is_digit c = (c \<in> set ''0123456789'')"

definition isValidPhoneNumber :: "string \<Rightarrow> bool" where
  "isValidPhoneNumber phoneNumber =
     (let cleaned = filter is_digit phoneNumber
      in length cleaned \<ge> 10 \<and> length cleaned \<le> 15)"

definition exotel_formatPhoneNumber :: "string \<Rightarrow> string" where
  "exotel_formatPhoneNumber phoneNumber =
     (let cleaned = filter is_digit phoneNumber;
          cleaned' = (if length cleaned = 10 then ''91'' @ cleaned else cleaned)
      in ''+'' @ cleaned')"

definition exotel_simulateCall :: "nat \<Rightarrow> string \<Rightarrow> CallRequest \<Rightarrow> CallResponse" where
  "exotel_simulateCall now rnd request =
     (let callId = ''sim_'' @ show_nat now @ ''_'' @ rnd
      in \<lparr>success = True, call_id = Some callId, status = Some ''initiated'',
          message = Some ''Call simulation started successfully'',
          error = None, simulation = Some True\<rparr>)"

definition exotel_placeCall :: "ExotelService \<Rightarrow> nat \<Rightarrow> string \<Rightarrow> CallRequest \<Rightarrow> CallResponse" where
  "exotel_placeCall svc now rnd request =
     (if ex_unconfigured svc then exotel_simulateCall now rnd request
      else if \<not> isValidPhoneNumber (to_number request) then exotel_simulateCall now rnd request
      else
        let fromNumber = or_else (caller_id request) (ex_virtualNumber svc);
            formattedFromNumber = (if startsWith fromNumber ''+'' then fromNumber
                                   else ''+91'' @ fromNumber);
            payload = \<lparr>ep_From = formattedFromNumber, ep_To = to_number request,
                       ep_audio = audio_url request, ep_CallerId = formattedFromNumber\<rparr>
        in (case ex_connect svc payload of
              None \<Rightarrow> exotel_simulateCall now rnd request
            | Some (sid, st) \<Rightarrow>
                \<lparr>success = True, call_id = sid, status = st,
                 message = Some ''Call initiated successfully'',
                 error = None, simulation = None\<rparr>))"

text \<open>
  The simulated status. The object literal is evaluated key by key: \<open>start_time\<close> calls
  \<open>toISOString\<close> on creation + 5 s, and \<open>end_time\<close> on creation + 15 s once more than
  15 s have elapsed; either call throws on an invalid date, and the result is then
  \<open>None\<close> (the exception).
\<close>

definition exotel_getSimulatedCallStatus :: "nat \<Rightarrow> string \<Rightarrow> CallStatus option" where
  "exotel_getSimulatedCallStatus now callId =
     (let created = parseInt_opt (nth_opt (split_on (CHR ''_'') callId) 1);
          elapsed = map_option (\<lambda>t. int now - t) created;
          st = (if num_gt elapsed 15000 then ''completed''
                else if num_gt elapsed 5000 then ''in-progress''
                else if num_gt elapsed 3000 then ''answered''
                else if num_gt elapsed 1000 then ''ringing''
                else ''initiated'');
          dur = (if num_gt elapsed 15000 then map_option (\<lambda>e. (e - 5000) div 1000) elapsed
                 else None)
      in case toISOString (map_option (\<lambda>t. t + 5000) created) of
           None \<Rightarrow> None
         | Some start \<Rightarrow>
             if num_gt elapsed 15000 then
               (case toISOString (map_option (\<lambda>t. t + 15000) created) of
                  None \<Rightarrow> None
                | Some fin \<Rightarrow>
                    Some \<lparr>cs_call_id = callId, cs_status = st, cs_duration = dur,
                          cs_direction = None, cs_from = None, cs_to = None,
                          cs_start_time = Some start, cs_end_time = Some fin\<rparr>)
             else
               Some \<lparr>cs_call_id = callId, cs_status = st, cs_duration = dur,
                     cs_direction = None, cs_from = None, cs_to = None,
                     cs_start_time = Some start, cs_end_time = None\<rparr>)"

text \<open>
  The stages of the secondary adapter's simulated status, in the order of their
  thresholds (1 s, 3 s, 5 s, 15 s).
\<close>

definition exotel_stages :: "string list" where
  "exotel_stages = [''initiated'', ''ringing'', ''answered'', ''in-progress'', ''completed'']"

text \<open>
  \<open>getCallStatus\<close> runs in a \<open>try\<close> whose \<open>catch\<close> returns \<open>null\<close>, so an
  exception of the simulated status or of the remote lookup is \<open>None\<close>. A \<open>Duration\<close>
  that does not parse is \<open>NaN\<close>, which a JSON reply does not carry either.
\<close>

definition exotel_getCallStatus :: "ExotelService \<Rightarrow> nat \<Rightarrow> string \<Rightarrow> CallStatus option" where
  "exotel_getCallStatus svc now callId =
     (if ex_unconfigured svc then exotel_getSimulatedCallStatus now callId
      else
        (case ex_fetch svc callId of
           None \<Rightarrow> None
         | Some callData \<Rightarrow>
             Some \<lparr>cs_call_id = ec_Sid callData, cs_status = ec_Status callData,
                   cs_duration = (case ec_Duration callData of
                                    None \<Rightarrow> None
                                  | Some d \<Rightarrow> if d = [] then None else parseInt d),
                   cs_direction = None, cs_from = None, cs_to = None,
                   cs_start_time = map_option ProviderString (ec_StartTime callData),
                   cs_end_time = map_option ProviderString (ec_EndTime callData)\<rparr>))"



section \<open>Speech synthesis adapter: services/elevenLabs.ts\<close>

text \<open>
  The audio directory is the list of its files in the order \<open>readdir\<close> yields them,
  each with its last-modified time (ms) and its bytes. \<open>fs_faults\<close> says which file
  operations throw. The remote synthesis \<open>el_post\<close> answers a voice id and a text
  with the audio bytes; \<open>None\<close> is any failure of the request. The model id and the
  voice settings of a request travel to the remote service untouched and are left out.
\<close>

record audio_file =
  af_mtime :: int
  af_data :: "nat list"

type_synonym audio_dir = "(string \<times> audio_file) list"

record fs_faults =
  write_fails :: "string \<Rightarrow> bool"
  remove_fails :: "string \<Rightarrow> bool"
  readdir_fails :: bool

record TTSRequest =
  tts_text :: string
  voice_id :: string

record TTSResponse =
  tts_success :: bool
  tts_audio_url :: "string option"
  tts_filename :: "string option"
  tts_error :: "string option"

record ElevenLabsService =
  el_apiKey :: string
  el_baseUrl :: string
  el_post :: "string \<times> string \<Rightarrow> nat list option"

definition writeFile :: "fs_faults \<Rightarrow> audio_dir \<Rightarrow> string \<Rightarrow> nat list \<Rightarrow> nat \<Rightarrow> audio_dir option" where
  "writeFile fs dir name bytes now =
     (if write_fails fs name then None
      else Some (filter (\<lambda>(n, f). n \<noteq> name) dir @ [(name, \<lparr>af_mtime = int now, af_data = bytes\<rparr>)]))"

definition mockAudioData :: "nat list" where
  "mockAudioData = [0x49, 0x44, 0x33, 0x03, 0x00, 0x00, 0x00, 0x00, 0x00, 0x00,
                    0xFF, 0xFB, 0x90, 0x00]"

text \<open>\<open>uuid\<close> is the value of \<open>uuidv4()\<close> and \<open>now\<close> that of \<open>Date.now()\<close>.\<close>

definition generateMockAudio ::
  "fs_faults \<Rightarrow> audio_dir \<Rightarrow> string \<Rightarrow> nat \<Rightarrow> TTSRequest \<Rightarrow> TTSResponse \<times> audio_dir" where
  "generateMockAudio fs dir uuid now request =
     (let filename = ''mock_tts_'' @ uuid @ ''_'' @ show_nat now @ ''.mp3''
      in case writeFile fs dir filename mockAudioData now of
           Some dir' \<Rightarrow>
             (\<lparr>tts_success = True, tts_audio_url = Some (''/audio/'' @ filename),
               tts_filename = Some filename, tts_error = None\<rparr>, dir')
         | None \<Rightarrow>
             (\<lparr>tts_success = False, tts_audio_url = None, tts_filename = None,
               tts_error = Some ''Failed to generate mock audio''\<rparr>, dir))"

text \<open>
  \<open>(uuid, now)\<close> name the file of the real path, \<open>(uuid', now')\<close> the stub's: each
  path draws its own identifier and clock value.
\<close>

definition generateSpeech ::
  "ElevenLabsService \<Rightarrow> fs_faults \<Rightarrow> audio_dir \<Rightarrow> string \<Rightarrow> nat \<Rightarrow> string \<Rightarrow> nat \<Rightarrow> TTSRequest
     \<Rightarrow> TTSResponse \<times> audio_dir" where
  "generateSpeech svc fs dir uuid now uuid' now' request =
     (if el_apiKey svc = [] then generateMockAudio fs dir uuid' now' request
      else
        let realVoiceId = (if startsWith (voice_id request) ''mock-''
                           then ''pNInz6obpgDQGcFmaJgB'' else voice_id request)
        in case el_post svc (realVoiceId, tts_text request) of
             None \<Rightarrow> generateMockAudio fs dir uuid' now' request
           | Some bytes \<Rightarrow>
               let filename = ''tts_'' @ uuid @ ''_'' @ show_nat now @ ''.mp3''
               in (case writeFile fs dir filename bytes now of
                     None \<Rightarrow> generateMockAudio fs dir uuid' now' request
                   | Some dir' \<Rightarrow>
                       (\<lparr>tts_success = True, tts_audio_url = Some (''/audio/'' @ filename),
                         tts_filename = Some filename, tts_error = None\<rparr>, dir')))"

datatype log_line = CleanedUp string | CleanupError

text \<open>
  The \<open>for\<close> loop of \<open>cleanupOldFiles\<close> over the names read at the start. The loop
  runs inside one \<open>try\<close>: a \<open>stat\<close> of a vanished file or a failing \<open>remove\<close>
  leaves the loop, and the \<open>catch\<close> logs the error.
\<close>

fun cleanup_loop ::
  "fs_faults \<Rightarrow> int \<Rightarrow> int \<Rightarrow> string list \<Rightarrow> audio_dir \<Rightarrow> log_line list
     \<Rightarrow> audio_dir \<times> log_line list" where
  "cleanup_loop fs now maxAge [] dir lg = (dir, lg)"
| "cleanup_loop fs now maxAge (file # files) dir lg =
     (case map_of dir file of
        None \<Rightarrow> (dir, lg @ [CleanupError])
      | Some stats \<Rightarrow>
          if now - af_mtime stats > maxAge then
            (if remove_fails fs file then (dir, lg @ [CleanupError])
             else cleanup_loop fs now maxAge files (filter (\<lambda>(n, f). n \<noteq> file) dir)
                    (lg @ [CleanedUp file]))
          else cleanup_loop fs now maxAge files dir lg)"

definition cleanupOldFiles ::
  "fs_faults \<Rightarrow> audio_dir \<Rightarrow> nat \<Rightarrow> int \<Rightarrow> audio_dir \<times> log_line list" where
  "cleanupOldFiles fs dir now maxAgeHours =
     (if readdir_fails fs then (dir, [CleanupError])
      else
        let files = map fst dir;
            maxAge = maxAgeHours * 60 * 60 * 1000
        in cleanup_loop fs (int now) maxAge files dir [])"


section \<open>HTTP routes: routes/voice.ts and routes/call.ts\<close>

datatype json = JBool bool | JStr string | JStatus CallStatus

text \<open>
  A response is its status code and its body. A JSON body lists its keys in order;
  \<open>res.json\<close> leaves out a key whose value is \<open>undefined\<close>.
\<close>

datatype body = Json "(string \<times> json) list" | Xml string

record http_response =
  http_status :: nat
  http_body :: body

fun opt_key :: "string \<Rightarrow> string option \<Rightarrow> (string \<times> json) list" where
  "opt_key k None = []"
| "opt_key k (Some v) = [(k, JStr v)]"

text \<open>\<open>!x\<close> on a string that may be absent.\<close>

fun falsy :: "string option \<Rightarrow> bool" where
  "falsy None = True"
| "falsy (Some s) = (s = [])"

definition show_int :: "int \<Rightarrow> string" where
  "show_int i = (if i < 0 then ''-'' @ show_nat (nat (- i)) else show_nat (nat i))"

text \<open>\<open>POST /api/voice/generate\<close>; the body's \<open>text\<close> and \<open>voice_id\<close> may be absent.\<close>

definition generate_route ::
  "ElevenLabsService \<Rightarrow> fs_faults \<Rightarrow> audio_dir \<Rightarrow> string \<Rightarrow> nat \<Rightarrow> string \<Rightarrow> nat
     \<Rightarrow> string option \<Rightarrow> string option \<Rightarrow> http_response \<times> audio_dir" where
  "generate_route svc fs dir uuid now uuid' now' txt voice =
     (if falsy txt \<or> falsy voice then
        (\<lparr>http_status = 400,
          http_body = Json [(''success'', JBool False), (''error'', JStr ''Missing required fields''),
                            (''message'', JStr ''Both text and voice_id are required'')]\<rparr>, dir)
      else if length (the txt) > 5000 then
        (\<lparr>http_status = 400,
          http_body = Json [(''success'', JBool False), (''error'', JStr ''Text too long''),
                            (''message'', JStr ''Text must be less than 5000 characters'')]\<rparr>, dir)
      else
        let (result, dir') = generateSpeech svc fs dir uuid now uuid' now'
                               \<lparr>tts_text = the txt, voice_id = the voice\<rparr>
        in if tts_success result then
             (\<lparr>http_status = 200,
               http_body = Json ([(''success'', JBool True)]
                                 @ opt_key ''audio_url'' (tts_audio_url result)
                                 @ opt_key ''filename'' (tts_filename result)
                                 @ [(''message'', JStr ''Speech generated successfully'')])\<rparr>, dir')
           else
             (\<lparr>http_status = 500,
               http_body = Json [(''success'', JBool False),
                                 (''error'', JStr (or_else (tts_error result)
                                                     ''Failed to generate speech''))]\<rparr>, dir'))"

text \<open>
  \<open>GET /api/voice/cleanup\<close>: \<open>parseInt(req.query.hours) || 24\<close> takes 24 for a
  missing or unreadable parameter and for every value that is falsy, which \<open>0\<close> is.
\<close>

definition cleanup_hours :: "string option \<Rightarrow> int" where
  "cleanup_hours q = (case parseInt_opt q of
                        None \<Rightarrow> 24
                      | Some h \<Rightarrow> if h = 0 then 24 else h)"

definition cleanup_route ::
  "fs_faults \<Rightarrow> audio_dir \<Rightarrow> nat \<Rightarrow> string option \<Rightarrow> http_response \<times> audio_dir \<times> log_line list" where
  "cleanup_route fs dir now q =
     (let maxAgeHours = cleanup_hours q;
          (dir', lg) = cleanupOldFiles fs dir now maxAgeHours
      in (\<lparr>http_status = 200,
           http_body = Json [(''success'', JBool True),
                             (''message'', JStr (''Cleaned up audio files older than ''
                                                 @ show_int maxAgeHours @ '' hours''))]\<rparr>,
          dir', lg))"

text \<open>
  \<open>POST /api/call/place\<close>. The result lists the adapters whose \<open>placeCall\<close> ran, in
  order, and the response. \<open>(now, rnd)\<close> are the clock and random text of a simulated
  primary placement, \<open>(now', rnd')\<close> those of a simulated secondary placement.
\<close>

datatype adapter = Twilio | Exotel

definition provider_of :: "string option \<Rightarrow> string" where
  "provider_of cid =
     (if (case cid of None \<Rightarrow> False | Some i \<Rightarrow> startsWith i ''CA'') then ''twilio''
      else if (case cid of None \<Rightarrow> False | Some i \<Rightarrow> startsWith i ''sim_twilio_'')
        then ''twilio_sim''
      else ''exotel'')"

definition place_route ::
  "TwilioService \<Rightarrow> ExotelService \<Rightarrow> nat \<Rightarrow> string \<Rightarrow> nat \<Rightarrow> string
     \<Rightarrow> string option \<Rightarrow> string option \<Rightarrow> string option \<Rightarrow> adapter list \<times> http_response" where
  "place_route tw ex now rnd now' rnd' to_num audio caller =
     (if falsy to_num \<or> falsy audio then
        ([], \<lparr>http_status = 400,
              http_body = Json [(''success'', JBool False),
                                (''error'', JStr ''Missing required fields''),
                                (''message'', JStr ''Both to_number and audio_url are required'')]\<rparr>)
      else
        let twilioRequest = \<lparr>to_number = the to_num, audio_url = the audio, caller_id = caller\<rparr>;
            result = twilio_placeCall tw now rnd twilioRequest;
            (ran, result') =
               (if \<not> success result \<and> \<not> falsy (error result) then
                  let formattedNumber = exotel_formatPhoneNumber (the to_num);
                      exotelRequest = \<lparr>to_number = formattedNumber, audio_url = the audio,
                                        caller_id = caller\<rparr>
                  in ([Twilio, Exotel], exotel_placeCall ex now' rnd' exotelRequest)
                else ([Twilio], result))
        in if success result' then
             (ran, \<lparr>http_status = 200,
                    http_body = Json ([(''success'', JBool True)]
                                      @ opt_key ''call_id'' (call_id result')
                                      @ opt_key ''message'' (message result')
                                      @ [(''provider'', JStr (provider_of (call_id result')))])\<rparr>)
           else
             (ran, \<lparr>http_status = 500,
                    http_body = Json [(''success'', JBool False),
                                      (''error'', JStr (or_else (error result')
                                                          ''Failed to place call''))]\<rparr>))"




text \<open>The value under a key of a JSON response, as a client reads it.\<close>

definition json_field :: "http_response \<Rightarrow> string \<Rightarrow> json option" where
  "json_field r k = (case http_body r of Json kvs \<Rightarrow> map_of kvs k | Xml x \<Rightarrow> None)"


section \<open>Properties\<close>

lemma split_on_nonempty [simp]: "split_on d s \<noteq> []"
  by (induction s) (auto split: list.splits)

lemma split_on_append:
  "d \<notin> set a \<Longrightarrow> split_on d (a @ d # b) = a # split_on d b"
  by (induction a) (auto split: list.splits)

lemma digit_val_digit_char: "d < 10 \<Longrightarrow> digit_val (digit_char d) = Some d"
  by (simp add: digit_val_def digit_char_def Let_def)

lemma is_digit_digit_char: "is_digit (digit_char d)"
  by (simp add: is_digit_def digit_char_def)

lemma show_nat_digits: "c \<in> set (show_nat n) \<Longrightarrow> is_digit c"
proof (induction n rule: show_nat.induct)
  case (1 n)
  then show ?case
    by (cases "n < 10") (auto simp: show_nat.simps [of n] is_digit_digit_char)
qed

lemma show_nat_nonempty [simp]: "show_nat n \<noteq> []"
  by (subst show_nat.simps) simp

lemma radix_value_snoc:
  "radix_value r (ds @ [c]) = radix_value r ds * r + the (digit_val c)"
  by (simp add: radix_value_def)

lemma radix_value_show_nat: "radix_value 10 (show_nat n) = n"
proof (induction n rule: show_nat.induct)
  case (1 n)
  show ?case
  proof (cases "n < 10")
    case True
    then show ?thesis
      by (simp add: show_nat.simps [of n] radix_value_def digit_val_digit_char)
  next
    case False
    with 1 have "radix_value 10 (show_nat (n div 10)) = n div 10" by simp
    with False show ?thesis
      by (simp add: show_nat.simps [of n] radix_value_snoc digit_val_digit_char)
  qed
qed

lemma is_digit_cases:
  "is_digit c \<Longrightarrow> \<not> is_ws c \<and> c \<noteq> CHR ''-'' \<and> c \<noteq> CHR ''+'' \<and> c \<noteq> CHR ''x'' \<and> c \<noteq> CHR ''X''
     \<and> c \<noteq> CHR ''_'' \<and> is_radix_digit 10 c"
  by (auto simp: is_digit_def is_ws_def is_radix_digit_def digit_val_def)

lemma parseInt_digits:
  assumes "ds \<noteq> []" and "\<forall>c \<in> set ds. is_digit c"
  shows "parseInt ds = Some (int (radix_value 10 ds))"
proof -
  from assms obtain c cs where ds: "ds = c # cs" by (cases ds) auto
  with assms have c: "is_digit c" and cs: "\<forall>x \<in> set cs. is_digit x" by auto
  have nohex: "\<not> startsWith ds ''0x''" "\<not> startsWith ds ''0X''"
    using cs is_digit_cases by (cases cs; auto simp: ds startsWith_def)+
  have tw: "\<forall>x \<in> set ds. is_radix_digit 10 x"
    using assms(2) is_digit_cases by blast
  have dw: "dropWhile is_ws ds = ds"
    using c is_digit_cases by (simp add: ds)
  have nosign: "\<not> startsWith ds ''-''" "\<not> startsWith ds ''+''"
    using c is_digit_cases by (auto simp: ds startsWith_def)
  show ?thesis
    using nohex tw dw nosign assms(1)
    by (simp add: parseInt_def Let_def takeWhile_eq_all_conv [THEN iffD2])
qed

lemma parseInt_show_nat: "parseInt (show_nat n) = Some (int n)"
  using parseInt_digits [of "show_nat n"] show_nat_digits
  by (simp add: radix_value_show_nat)

lemma underscore_notin_show_nat: "CHR ''_'' \<notin> set (show_nat n)"
  using show_nat_digits is_digit_cases by blast

lemma twilio_sim_id_timestamp:
  "nth_opt (split_on (CHR ''_'') (''sim_twilio_'' @ show_nat t @ ''_'' @ rnd)) 2 = Some (show_nat t)"
proof -
  have "split_on (CHR ''_'') (show_nat t @ CHR ''_'' # rnd) = show_nat t # split_on (CHR ''_'') rnd"
    by (rule split_on_append) (rule underscore_notin_show_nat)
  then show ?thesis
    by (simp add: nth_opt_def split: list.splits)
qed

lemma exotel_sim_id_timestamp:
  "nth_opt (split_on (CHR ''_'') (''sim_'' @ show_nat t @ ''_'' @ rnd)) 1 = Some (show_nat t)"
proof -
  have "split_on (CHR ''_'') (show_nat t @ CHR ''_'' # rnd) = show_nat t # split_on (CHR ''_'') rnd"
    by (rule split_on_append) (rule underscore_notin_show_nat)
  then show ?thesis
    by (simp add: nth_opt_def split: list.splits)
qed


lemma twilio_sim_id_facts:
  assumes "call_id (twilio_simulateCall t rnd req) = Some cid"
  shows "startsWith cid ''sim_twilio_''"
    and "parseInt_opt (nth_opt (split_on (CHR ''_'') cid) 2) = Some (int t)"
proof -
  from assms have cid: "cid = ''sim_twilio_'' @ show_nat t @ ''_'' @ rnd"
    by (simp add: twilio_simulateCall_def)
  show "startsWith cid ''sim_twilio_''"
    by (simp add: cid startsWith_def)
  have "nth_opt (split_on (CHR ''_'') cid) 2 = Some (show_nat t)"
    unfolding cid by (rule twilio_sim_id_timestamp)
  then show "parseInt_opt (nth_opt (split_on (CHR ''_'') cid) 2) = Some (int t)"
    by (simp add: parseInt_show_nat)
qed

lemma exotel_sim_id_facts:
  assumes "call_id (exotel_simulateCall t rnd req) = Some cid"
  shows "parseInt_opt (nth_opt (split_on (CHR ''_'') cid) 1) = Some (int t)"
proof -
  from assms have cid: "cid = ''sim_'' @ show_nat t @ ''_'' @ rnd"
    by (simp add: exotel_simulateCall_def)
  have "nth_opt (split_on (CHR ''_'') cid) 1 = Some (show_nat t)"
    unfolding cid by (rule exotel_sim_id_timestamp)
  then show ?thesis
    by (simp add: parseInt_show_nat)
qed

lemma twilio_status_of_timestamp:
  assumes "startsWith cid ''sim_twilio_''"
      and "parseInt_opt (nth_opt (split_on (CHR ''_'') cid) 2) = Some ts"
  shows "twilio_getSimulatedCallStatus svc now cid =
           Some \<lparr>cs_call_id = cid,
                 cs_status = (if int now - ts > 8000 then ''completed''
                              else if int now - ts > 6000 then ''in-progress''
                              else if int now - ts > 2000 then ''ringing''
                              else ''queued''),
                 cs_duration = (if int now - ts > 8000 then Some ((int now - ts) div 1000)
                                else None),
                 cs_direction = Some ''outbound-api'',
                 cs_from = Some (or_else (Some (tw_phoneNumber svc)) ''+14722138384''),
                 cs_to = Some ''+919024266007'',
                 cs_start_time = None, cs_end_time = None\<rparr>"
  using assms by (simp add: twilio_getSimulatedCallStatus_def Let_def)

lemma exotel_status_of_timestamp:
  assumes "parseInt_opt (nth_opt (split_on (CHR ''_'') cid) 1) = Some ts"
      and "valid_time (ts + 5000)" and "valid_time (ts + 15000)"
  shows "exotel_getSimulatedCallStatus now cid =
           Some \<lparr>cs_call_id = cid,
                 cs_status = (if int now - ts > 15000 then ''completed''
                              else if int now - ts > 5000 then ''in-progress''
                              else if int now - ts > 3000 then ''answered''
                              else if int now - ts > 1000 then ''ringing''
                              else ''initiated''),
                 cs_duration = (if int now - ts > 15000
                                then Some ((int now - ts - 5000) div 1000) else None),
                 cs_direction = None, cs_from = None, cs_to = None,
                 cs_start_time = Some (ISOString (ts + 5000)),
                 cs_end_time = (if int now - ts > 15000 then Some (ISOString (ts + 15000))
                                else None)\<rparr>"
  using assms by (simp add: exotel_getSimulatedCallStatus_def toISOString_def Let_def)

lemma valid_time_created:
  "int t + 15000 \<le> 8640000000000000 \<Longrightarrow> valid_time (int t + 5000) \<and> valid_time (int t + 15000)"
  by (simp add: valid_time_def)

text \<open>
  C4. In simulation mode, the status of a call id that \<open>simulateCall\<close> made at time
  \<open>t\<close>, queried at time \<open>now\<close>, is a function of the elapsed time \<open>now - t\<close> (ms):
  \<open>queued\<close> below 2 s (and at exactly 2 s), \<open>ringing\<close> above 2 s up to 6 s,
  \<open>in-progress\<close> above 6 s up to 8 s, \<open>completed\<close> above 8 s. The duration is set
  exactly when the status is \<open>completed\<close>, and is then the whole elapsed seconds.
\<close>

theorem twilio_simulated_status_by_elapsed:
  assumes "tw_client svc = None"
      and "call_id (twilio_simulateCall t rnd req) = Some cid"
  shows "\<exists>st. twilio_getCallStatus svc now cid = Some st
           \<and> cs_call_id st = cid
           \<and> (int now - int t < 2000 \<longrightarrow> cs_status st = ''queued'')
           \<and> (int now - int t = 2000 \<longrightarrow> cs_status st = ''queued'')
           \<and> (2000 < int now - int t \<and> int now - int t \<le> 6000 \<longrightarrow> cs_status st = ''ringing'')
           \<and> (6000 < int now - int t \<and> int now - int t \<le> 8000
                 \<longrightarrow> cs_status st = ''in-progress'')
           \<and> (8000 < int now - int t \<longrightarrow> cs_status st = ''completed'')
           \<and> (cs_duration st \<noteq> None \<longleftrightarrow> cs_status st = ''completed'')
           \<and> (cs_status st = ''completed''
                 \<longrightarrow> cs_duration st = Some ((int now - int t) div 1000))"
proof -
  have "twilio_getCallStatus svc now cid = twilio_getSimulatedCallStatus svc now cid"
    using assms(1) by (simp add: twilio_getCallStatus_def)
  then show ?thesis
    using twilio_status_of_timestamp [OF twilio_sim_id_facts [OF assms(2)], of svc now]
    by simp
qed


theorem twilio_simulated_status_by_elapsed_witness:
  "tw_client (TwilioService_new [] [] [] [] (\<lambda>sid token. None)) = None
   \<and> call_id (twilio_simulateCall 1000 ''abc''
        \<lparr>to_number = ''9876543210'', audio_url = ''/audio/a.mp3'', caller_id = None\<rparr>)
       = Some ''sim_twilio_1000_abc''
   \<and> (\<exists>st. twilio_getCallStatus (TwilioService_new [] [] [] [] (\<lambda>sid token. None)) 9500
               ''sim_twilio_1000_abc'' = Some st
          \<and> cs_status st = ''completed'' \<and> cs_duration st = Some 8)"
proof -
  have svc: "tw_client (TwilioService_new [] [] [] [] (\<lambda>sid token. None)) = None"
    by (simp add: TwilioService_new_def)
  have cid: "call_id (twilio_simulateCall 1000 ''abc''
        \<lparr>to_number = ''9876543210'', audio_url = ''/audio/a.mp3'', caller_id = None\<rparr>)
       = Some ''sim_twilio_1000_abc''"
    by (simp add: twilio_simulateCall_def show_nat.simps digit_char_def)
  show ?thesis
    using svc cid twilio_simulated_status_by_elapsed [OF svc cid, of 9500]
    by auto
qed


text \<open>
  C8. For a call id made by either adapter's \<open>simulateCall\<close> at time \<open>t\<close>, and two
  queries at times \<open>now1 \<le> now2\<close> in simulation mode: both statuses are stages of
  the adapter's stage list, the later one is not at an earlier position, the status is
  \<open>completed\<close> exactly when the elapsed time is above the last threshold (8 s for the
  primary, 15 s for the secondary adapter), and once \<open>completed\<close> it stays so.
\<close>

theorem simulated_status_monotone:
  assumes "now1 \<le> now2"
  shows "(tw_client tw = None \<and> call_id (twilio_simulateCall t rnd req) = Some cid \<longrightarrow>
            (\<exists>s1 s2. twilio_getCallStatus tw now1 cid = Some s1
               \<and> twilio_getCallStatus tw now2 cid = Some s2
               \<and> cs_status s1 \<in> set twilio_statuses \<and> cs_status s2 \<in> set twilio_statuses
               \<and> stage_index twilio_statuses (cs_status s1)
                    \<le> stage_index twilio_statuses (cs_status s2)
               \<and> (cs_status s1 = last twilio_statuses \<longleftrightarrow> int now1 - int t > 8000)
               \<and> (cs_status s1 = ''completed'' \<longrightarrow> cs_status s2 = ''completed'')))
       \<and> (ex_unconfigured ex \<and> call_id (exotel_simulateCall t' rnd' req') = Some cid'
            \<and> int t' + 15000 \<le> 8640000000000000 \<longrightarrow>
            (\<exists>s1 s2. exotel_getCallStatus ex now1 cid' = Some s1
               \<and> exotel_getCallStatus ex now2 cid' = Some s2
               \<and> cs_status s1 \<in> set exotel_stages \<and> cs_status s2 \<in> set exotel_stages
               \<and> stage_index exotel_stages (cs_status s1)
                    \<le> stage_index exotel_stages (cs_status s2)
               \<and> (cs_status s1 = last exotel_stages \<longleftrightarrow> int now1 - int t' > 15000)
               \<and> (cs_status s1 = ''completed'' \<longrightarrow> cs_status s2 = ''completed'')))"
proof (intro conjI impI)
  assume a: "tw_client tw = None \<and> call_id (twilio_simulateCall t rnd req) = Some cid"
  then have sim: "twilio_getCallStatus tw n cid = twilio_getSimulatedCallStatus tw n cid" for n
    by (simp add: twilio_getCallStatus_def)
  from a have id: "call_id (twilio_simulateCall t rnd req) = Some cid" by simp
  note st = twilio_status_of_timestamp [OF twilio_sim_id_facts [OF id]]
  show "\<exists>s1 s2. twilio_getCallStatus tw now1 cid = Some s1
               \<and> twilio_getCallStatus tw now2 cid = Some s2
               \<and> cs_status s1 \<in> set twilio_statuses \<and> cs_status s2 \<in> set twilio_statuses
               \<and> stage_index twilio_statuses (cs_status s1)
                    \<le> stage_index twilio_statuses (cs_status s2)
               \<and> (cs_status s1 = last twilio_statuses \<longleftrightarrow> int now1 - int t > 8000)
               \<and> (cs_status s1 = ''completed'' \<longrightarrow> cs_status s2 = ''completed'')"
    using assms by (simp add: sim st twilio_statuses_def)
next
  assume a: "ex_unconfigured ex \<and> call_id (exotel_simulateCall t' rnd' req') = Some cid'
            \<and> int t' + 15000 \<le> 8640000000000000"
  then have sim: "exotel_getCallStatus ex n cid' = exotel_getSimulatedCallStatus n cid'" for n
    by (simp add: exotel_getCallStatus_def)
  from a have id: "call_id (exotel_simulateCall t' rnd' req') = Some cid'" by simp
  from a have v: "valid_time (int t' + 5000)" "valid_time (int t' + 15000)"
    using valid_time_created by simp_all
  note st = exotel_status_of_timestamp [OF exotel_sim_id_facts [OF id] v]
  show "\<exists>s1 s2. exotel_getCallStatus ex now1 cid' = Some s1
               \<and> exotel_getCallStatus ex now2 cid' = Some s2
               \<and> cs_status s1 \<in> set exotel_stages \<and> cs_status s2 \<in> set exotel_stages
               \<and> stage_index exotel_stages (cs_status s1)
                    \<le> stage_index exotel_stages (cs_status s2)
               \<and> (cs_status s1 = last exotel_stages \<longleftrightarrow> int now1 - int t' > 15000)
               \<and> (cs_status s1 = ''completed'' \<longrightarrow> cs_status s2 = ''completed'')"
    using assms by (simp add: sim st exotel_stages_def)
qed

theorem simulated_status_monotone_witness:
  "(3000::nat) \<le> 12000
   \<and> tw_client (TwilioService_new [] [] [] [] (\<lambda>sid token. None)) = None
   \<and> call_id (twilio_simulateCall 1000 ''abc''
        \<lparr>to_number = ''9876543210'', audio_url = ''/audio/a.mp3'', caller_id = None\<rparr>)
       = Some ''sim_twilio_1000_abc''
   \<and> (\<exists>s1 s2. twilio_getCallStatus (TwilioService_new [] [] [] [] (\<lambda>sid token. None)) 3000
                  ''sim_twilio_1000_abc'' = Some s1
          \<and> twilio_getCallStatus (TwilioService_new [] [] [] [] (\<lambda>sid token. None)) 12000
                  ''sim_twilio_1000_abc'' = Some s2
          \<and> stage_index twilio_statuses (cs_status s1)
               \<le> stage_index twilio_statuses (cs_status s2)
          \<and> cs_status s1 \<noteq> ''completed'')
   \<and> ex_unconfigured (ExotelService_new [] [] [] [] [] (\<lambda>p. None) (\<lambda>i. None))
   \<and> call_id (exotel_simulateCall 1000 ''abc''
        \<lparr>to_number = ''9876543210'', audio_url = ''/audio/a.mp3'', caller_id = None\<rparr>)
       = Some ''sim_1000_abc''
   \<and> int (1000::nat) + 15000 \<le> 8640000000000000
   \<and> (\<exists>s1 s2. exotel_getCallStatus (ExotelService_new [] [] [] [] [] (\<lambda>p. None) (\<lambda>i. None))
                  3000 ''sim_1000_abc'' = Some s1
          \<and> exotel_getCallStatus (ExotelService_new [] [] [] [] [] (\<lambda>p. None) (\<lambda>i. None))
                  12000 ''sim_1000_abc'' = Some s2
          \<and> stage_index exotel_stages (cs_status s1)
               \<le> stage_index exotel_stages (cs_status s2)
          \<and> cs_status s1 \<noteq> ''completed'')"
proof -
  have tw: "tw_client (TwilioService_new [] [] [] [] (\<lambda>sid token. None)) = None"
    by (simp add: TwilioService_new_def)
  have ex: "ex_unconfigured (ExotelService_new [] [] [] [] [] (\<lambda>p. None) (\<lambda>i. None))"
    by (simp add: ExotelService_new_def ex_unconfigured_def)
  have cid: "call_id (twilio_simulateCall 1000 ''abc''
        \<lparr>to_number = ''9876543210'', audio_url = ''/audio/a.mp3'', caller_id = None\<rparr>)
       = Some ''sim_twilio_1000_abc''"
    by (simp add: twilio_simulateCall_def show_nat.simps digit_char_def)
  have cid': "call_id (exotel_simulateCall 1000 ''abc''
        \<lparr>to_number = ''9876543210'', audio_url = ''/audio/a.mp3'', caller_id = None\<rparr>)
       = Some ''sim_1000_abc''"
    by (simp add: exotel_simulateCall_def show_nat.simps digit_char_def)
  have le: "(3000::nat) \<le> 12000" by simp
  have v: "int (1000::nat) + 15000 \<le> 8640000000000000" by simp
  note inst = simulated_status_monotone [OF le,
      of "TwilioService_new [] [] [] [] (\<lambda>sid token. None)" 1000 "''abc''"
         "\<lparr>to_number = ''9876543210'', audio_url = ''/audio/a.mp3'', caller_id = None\<rparr>"
         "''sim_twilio_1000_abc''"
         "ExotelService_new [] [] [] [] [] (\<lambda>p. None) (\<lambda>i. None)" 1000 "''abc''"
         "\<lparr>to_number = ''9876543210'', audio_url = ''/audio/a.mp3'', caller_id = None\<rparr>"
         "''sim_1000_abc''"]
  from inst tw cid obtain s1 s2 where
    a: "twilio_getCallStatus (TwilioService_new [] [] [] [] (\<lambda>sid token. None)) 3000
          ''sim_twilio_1000_abc'' = Some s1"
       "twilio_getCallStatus (TwilioService_new [] [] [] [] (\<lambda>sid token. None)) 12000
          ''sim_twilio_1000_abc'' = Some s2"
       "stage_index twilio_statuses (cs_status s1) \<le> stage_index twilio_statuses (cs_status s2)"
       "cs_status s1 = last twilio_statuses \<longleftrightarrow> int (3000::nat) - int (1000::nat) > 8000"
    by blast
  from a(4) have a4: "cs_status s1 \<noteq> ''completed''"
    by (simp add: twilio_statuses_def)
  from inst ex cid' v obtain r1 r2 where
    b: "exotel_getCallStatus (ExotelService_new [] [] [] [] [] (\<lambda>p. None) (\<lambda>i. None)) 3000
          ''sim_1000_abc'' = Some r1"
       "exotel_getCallStatus (ExotelService_new [] [] [] [] [] (\<lambda>p. None) (\<lambda>i. None)) 12000
          ''sim_1000_abc'' = Some r2"
       "stage_index exotel_stages (cs_status r1) \<le> stage_index exotel_stages (cs_status r2)"
       "cs_status r1 = last exotel_stages \<longleftrightarrow> int (3000::nat) - int (1000::nat) > 15000"
    by blast
  from b(4) have b4: "cs_status r1 \<noteq> ''completed''"
    by (simp add: exotel_stages_def)
  show ?thesis
    using tw ex cid cid' le v a(1-3) a4 b(1-3) b4 by blast
qed

text \<open>
  C10. In simulation mode, the status of a call id that the secondary adapter's
  \<open>simulateCall\<close> made at time \<open>t\<close> always carries \<open>start_time\<close>, the ISO text of
  \<open>t + 5000\<close> ms, also while the call is still \<open>initiated\<close> or \<open>ringing\<close>;
  \<open>end_time\<close> is present exactly when more than 15 s have elapsed, and then it is the
  ISO text of \<open>t + 15000\<close> ms and the duration is the whole seconds of the elapsed time
  less 5 s.
\<close>

theorem exotel_simulated_start_end_times:
  assumes "ex_unconfigured ex"
      and "call_id (exotel_simulateCall t rnd req) = Some cid"
      and "int t + 15000 \<le> 8640000000000000"
  shows "\<exists>st. exotel_getCallStatus ex now cid = Some st
           \<and> cs_start_time st = Some (ISOString (int t + 5000))
           \<and> (int now - int t \<le> 3000 \<longrightarrow> cs_status st \<in> {''initiated'', ''ringing''})
           \<and> (cs_end_time st \<noteq> None \<longleftrightarrow> int now - int t > 15000)
           \<and> (cs_duration st \<noteq> None \<longleftrightarrow> int now - int t > 15000)
           \<and> (int now - int t > 15000 \<longrightarrow>
                 cs_end_time st = Some (ISOString (int t + 15000))
                 \<and> cs_duration st = Some ((int now - int t - 5000) div 1000))"
proof -
  have sim: "exotel_getCallStatus ex now cid = exotel_getSimulatedCallStatus now cid"
    using assms(1) by (simp add: exotel_getCallStatus_def)
  have v: "valid_time (int t + 5000)" "valid_time (int t + 15000)"
    using valid_time_created [OF assms(3)] by simp_all
  show ?thesis
    by (simp add: sim exotel_status_of_timestamp [OF exotel_sim_id_facts [OF assms(2)] v])
qed

theorem exotel_simulated_start_end_times_witness:
  "ex_unconfigured (ExotelService_new [] [] [] [] [] (\<lambda>p. None) (\<lambda>i. None))
   \<and> call_id (exotel_simulateCall 1000 ''abc''
        \<lparr>to_number = ''9876543210'', audio_url = ''/audio/a.mp3'', caller_id = None\<rparr>)
       = Some ''sim_1000_abc''
   \<and> int (1000::nat) + 15000 \<le> 8640000000000000
   \<and> (\<exists>st. exotel_getCallStatus (ExotelService_new [] [] [] [] [] (\<lambda>p. None) (\<lambda>i. None))
               2000 ''sim_1000_abc'' = Some st
          \<and> cs_start_time st = Some (ISOString 6000)
          \<and> cs_status st \<in> {''initiated'', ''ringing''}
          \<and> cs_end_time st = None \<and> cs_duration st = None)"
proof -
  have ex: "ex_unconfigured (ExotelService_new [] [] [] [] [] (\<lambda>p. None) (\<lambda>i. None))"
    by (simp add: ExotelService_new_def ex_unconfigured_def)
  have cid: "call_id (exotel_simulateCall 1000 ''abc''
        \<lparr>to_number = ''9876543210'', audio_url = ''/audio/a.mp3'', caller_id = None\<rparr>)
       = Some ''sim_1000_abc''"
    by (simp add: exotel_simulateCall_def show_nat.simps digit_char_def)
  have v: "int (1000::nat) + 15000 \<le> 8640000000000000" by simp
  show ?thesis
    using ex cid v exotel_simulated_start_end_times [OF ex cid v, of 2000]
    by auto
qed












text \<open>
  C1, as the code has it. Without telephony credentials every placement succeeds in
  simulation. The primary adapter's \<open>placeCall\<close> returns \<open>success: true\<close> and the
  call id \<open>sim_twilio_<timestamp>_<random>\<close>, and its \<open>placeCallWithText\<close> returns
  \<open>success: true\<close>; neither result has a \<open>simulation\<close> key, which the primary
  adapter's response type does not have. The secondary adapter's \<open>placeCall\<close> returns
  \<open>success: true\<close>, \<open>simulation: true\<close> and the call id \<open>sim_<timestamp>_<random>\<close>.
\<close>

theorem unconfigured_placement_is_simulated:
  "(sid = [] \<or> token = [] \<or> phone = [] \<longrightarrow>
      success (twilio_placeCall (TwilioService_new sid token phone hook factory) now rnd req)
      \<and> call_id (twilio_placeCall (TwilioService_new sid token phone hook factory) now rnd req)
          = Some (''sim_twilio_'' @ show_nat now @ ''_'' @ rnd)
      \<and> simulation (twilio_placeCall (TwilioService_new sid token phone hook factory) now rnd req)
          = None
      \<and> success (placeCallWithText (TwilioService_new sid token phone hook factory)
                   now rnd txt to_num caller)
      \<and> simulation (placeCallWithText (TwilioService_new sid token phone hook factory)
                      now rnd txt to_num caller) = None)
   \<and> (ex_unconfigured ex \<longrightarrow>
        success (exotel_placeCall ex now rnd req)
        \<and> simulation (exotel_placeCall ex now rnd req) = Some True
        \<and> call_id (exotel_placeCall ex now rnd req) = Some (''sim_'' @ show_nat now @ ''_'' @ rnd))"
proof (intro conjI impI)
  assume "sid = [] \<or> token = [] \<or> phone = []"
  then have none: "tw_client (TwilioService_new sid token phone hook factory) = None"
    by (auto simp: TwilioService_new_def)
  show "success (twilio_placeCall (TwilioService_new sid token phone hook factory) now rnd req)"
    by (simp add: twilio_placeCall_def none twilio_simulateCall_def)
  show "call_id (twilio_placeCall (TwilioService_new sid token phone hook factory) now rnd req)
          = Some (''sim_twilio_'' @ show_nat now @ ''_'' @ rnd)"
    by (simp add: twilio_placeCall_def none twilio_simulateCall_def)
  show "simulation (twilio_placeCall (TwilioService_new sid token phone hook factory) now rnd req)
          = None"
    by (simp add: twilio_placeCall_def none twilio_simulateCall_def)
  show "success (placeCallWithText (TwilioService_new sid token phone hook factory)
                   now rnd txt to_num caller)"
    by (simp add: placeCallWithText_def none simulateCallWithText_def)
  show "simulation (placeCallWithText (TwilioService_new sid token phone hook factory)
                      now rnd txt to_num caller) = None"
    by (simp add: placeCallWithText_def none simulateCallWithText_def)
next
  assume ex: "ex_unconfigured ex"
  show "success (exotel_placeCall ex now rnd req)"
    by (simp add: exotel_placeCall_def ex exotel_simulateCall_def)
  show "simulation (exotel_placeCall ex now rnd req) = Some True"
    by (simp add: exotel_placeCall_def ex exotel_simulateCall_def)
  show "call_id (exotel_placeCall ex now rnd req) = Some (''sim_'' @ show_nat now @ ''_'' @ rnd)"
    by (simp add: exotel_placeCall_def ex exotel_simulateCall_def)
qed

theorem unconfigured_placement_is_simulated_witness:
  "([] = ([]::string) \<or> [] = ([]::string) \<or> [] = ([]::string))
   \<and> call_id (twilio_placeCall (TwilioService_new [] [] [] [] (\<lambda>sid token. None)) 1000 ''abc''
        \<lparr>to_number = ''9876543210'', audio_url = ''/audio/a.mp3'', caller_id = None\<rparr>)
       = Some ''sim_twilio_1000_abc''
   \<and> success (placeCallWithText (TwilioService_new [] [] [] [] (\<lambda>sid token. None)) 1000 ''abc''
        ''Hello World'' ''9876543210'' None)
   \<and> ex_unconfigured (ExotelService_new [] [] [] [] [] (\<lambda>p. None) (\<lambda>i. None))
   \<and> simulation (exotel_placeCall (ExotelService_new [] [] [] [] [] (\<lambda>p. None) (\<lambda>i. None))
        1000 ''abc''
        \<lparr>to_number = ''9876543210'', audio_url = ''/audio/a.mp3'', caller_id = None\<rparr>)
       = Some True
   \<and> call_id (exotel_placeCall (ExotelService_new [] [] [] [] [] (\<lambda>p. None) (\<lambda>i. None))
        1000 ''abc''
        \<lparr>to_number = ''9876543210'', audio_url = ''/audio/a.mp3'', caller_id = None\<rparr>)
       = Some ''sim_1000_abc''"
proof -
  have ex: "ex_unconfigured (ExotelService_new [] [] [] [] [] (\<lambda>p. None) (\<lambda>i. None))"
    by (simp add: ExotelService_new_def ex_unconfigured_def)
  have n: "show_nat 1000 = ''1000''"
    by (simp add: show_nat.simps digit_char_def)
  show ?thesis
    using ex n
      unconfigured_placement_is_simulated [of "[]" "[]" "[]" "[]" "\<lambda>sid token. None" 1000 "''abc''"
        "\<lparr>to_number = ''9876543210'', audio_url = ''/audio/a.mp3'', caller_id = None\<rparr>"
        "''Hello World''" "''9876543210''" None
        "ExotelService_new [] [] [] [] [] (\<lambda>p. None) (\<lambda>i. None)"]
    by simp
qed

text \<open>
  The claim as stated asks for \<open>simulation: true\<close> from the primary adapter as well; the
  result of its \<open>placeCall\<close> in an environment without credentials has no such key.
\<close>

theorem primary_simulation_flag_counterexample:
  "simulation (twilio_placeCall (TwilioService_new [] [] [] [] (\<lambda>sid token. None)) 1000 ''abc''
      \<lparr>to_number = ''9876543210'', audio_url = ''/audio/a.mp3'', caller_id = None\<rparr>)
     \<noteq> Some True"
  by (simp add: twilio_placeCall_def TwilioService_new_def twilio_simulateCall_def)

lemma twilio_placeCall_success: "success (twilio_placeCall tw now rnd req)"
  by (simp add: twilio_placeCall_def twilio_simulateCall_def Let_def
           split: option.splits)

lemma twilio_placeCall_call_id:
  "call_id (twilio_placeCall tw now rnd req) =
     (case tw_client tw of
        None \<Rightarrow> Some (''sim_twilio_'' @ show_nat now @ ''_'' @ rnd)
      | Some c \<Rightarrow>
          (case calls_create c (generateSimpleTwiML (to_number req),
                                twilio_formatPhoneNumber (to_number req),
                                or_else (caller_id req) (tw_phoneNumber tw)) of
             None \<Rightarrow> Some (''sim_twilio_'' @ show_nat now @ ''_'' @ rnd)
           | Some sid \<Rightarrow> Some sid))"
  by (simp add: twilio_placeCall_def twilio_simulateCall_def Let_def
           split: option.splits)

lemma place_route_unfold:
  "\<not> falsy to_num \<Longrightarrow> \<not> falsy audio \<Longrightarrow>
   place_route tw ex now rnd now' rnd' to_num audio caller =
     (let result = twilio_placeCall tw now rnd
                     \<lparr>to_number = the to_num, audio_url = the audio, caller_id = caller\<rparr>
      in ([Twilio],
          \<lparr>http_status = 200,
           http_body = Json ([(''success'', JBool True)]
                             @ opt_key ''call_id'' (call_id result)
                             @ opt_key ''message'' (message result)
                             @ [(''provider'', JStr (provider_of (call_id result)))])\<rparr>))"
  by (simp add: place_route_def Let_def twilio_placeCall_success)

lemma json_field_provider:
  "json_field \<lparr>http_status = 200,
               http_body = Json ((''success'', JBool True) # opt_key ''call_id'' a
                                 @ opt_key ''message'' b @ [(''provider'', JStr p)])\<rparr>
     ''provider'' = Some (JStr p)"
  by (cases a; cases b) (simp_all add: json_field_def)

text \<open>
  C9. The primary adapter's \<open>placeCall\<close> always returns \<open>success: true\<close>; without a
  client, or when the provider rejects the call, the result is the adapter's own
  simulated one. So \<open>POST /api/call/place\<close> never runs the secondary adapter's
  \<open>placeCall\<close>, and its response does not depend on the secondary adapter. Every
  response with status 200 names the provider \<open>twilio\<close> or \<open>twilio_sim\<close>, given
  that the call SIDs which the primary provider assigns start with \<open>CA\<close>.
\<close>

theorem place_route_fallback_unreachable:
  "success (twilio_placeCall tw now rnd req)
   \<and> (tw_client tw = None \<longrightarrow> twilio_placeCall tw now rnd req = twilio_simulateCall now rnd req)
   \<and> (\<forall>c. tw_client tw = Some c
          \<and> calls_create c (generateSimpleTwiML (to_number req),
                             twilio_formatPhoneNumber (to_number req),
                             or_else (caller_id req) (tw_phoneNumber tw)) = None
          \<longrightarrow> twilio_placeCall tw now rnd req = twilio_simulateCall now rnd req)
   \<and> Exotel \<notin> set (fst (place_route tw ex now rnd now' rnd' to_num audio caller))
   \<and> place_route tw ex now rnd now' rnd' to_num audio caller
       = place_route tw ex' now rnd now'' rnd'' to_num audio caller
   \<and> ((\<forall>c args sid. tw_client tw = Some c \<and> calls_create c args = Some sid
                       \<longrightarrow> startsWith sid ''CA'')
        \<and> http_status (snd (place_route tw ex now rnd now' rnd' to_num audio caller)) = 200
        \<longrightarrow> json_field (snd (place_route tw ex now rnd now' rnd' to_num audio caller)) ''provider''
              \<in> {Some (JStr ''twilio''), Some (JStr ''twilio_sim'')})"
proof (intro conjI impI allI)
  show "success (twilio_placeCall tw now rnd req)"
    by (rule twilio_placeCall_success)
  show "twilio_placeCall tw now rnd req = twilio_simulateCall now rnd req"
    if "tw_client tw = None"
    using that by (simp add: twilio_placeCall_def)
  show "twilio_placeCall tw now rnd req = twilio_simulateCall now rnd req"
    if "tw_client tw = Some c
          \<and> calls_create c (generateSimpleTwiML (to_number req),
                             twilio_formatPhoneNumber (to_number req),
                             or_else (caller_id req) (tw_phoneNumber tw)) = None" for c
    using that by (simp add: twilio_placeCall_def Let_def)
  show "Exotel \<notin> set (fst (place_route tw ex now rnd now' rnd' to_num audio caller))"
    by (cases "falsy to_num \<or> falsy audio")
       (auto simp: place_route_unfold Let_def, simp_all add: place_route_def)
  show "place_route tw ex now rnd now' rnd' to_num audio caller
       = place_route tw ex' now rnd now'' rnd'' to_num audio caller"
    by (cases "falsy to_num \<or> falsy audio")
       (auto simp: place_route_unfold, simp_all add: place_route_def)
next
  assume a: "(\<forall>c args sid. tw_client tw = Some c \<and> calls_create c args = Some sid
                       \<longrightarrow> startsWith sid ''CA'')
        \<and> http_status (snd (place_route tw ex now rnd now' rnd' to_num audio caller)) = 200"
  then have ok: "\<not> falsy to_num" "\<not> falsy audio"
    by (auto simp: place_route_def)
  define r where "r = twilio_placeCall tw now rnd
                     \<lparr>to_number = the to_num, audio_url = the audio, caller_id = caller\<rparr>"
  have field: "json_field (snd (place_route tw ex now rnd now' rnd' to_num audio caller))
                 ''provider'' = Some (JStr (provider_of (call_id r)))"
    by (simp add: place_route_unfold [OF ok] Let_def r_def json_field_provider)
  have "provider_of (call_id r) = ''twilio'' \<or> provider_of (call_id r) = ''twilio_sim''"
  proof (cases "tw_client tw")
    case None
    then show ?thesis
      by (simp add: r_def twilio_placeCall_call_id provider_of_def startsWith_def)
  next
    case (Some c)
    show ?thesis
    proof (cases "calls_create c (generateSimpleTwiML (the to_num),
                                twilio_formatPhoneNumber (the to_num),
                                or_else caller (tw_phoneNumber tw))")
      case None
      with Some show ?thesis
        by (simp add: r_def twilio_placeCall_call_id provider_of_def startsWith_def)
    next
      case (Some sid)
      with \<open>tw_client tw = Some c\<close> a have "startsWith sid ''CA''" by blast
      with Some \<open>tw_client tw = Some c\<close> show ?thesis
        by (simp add: r_def twilio_placeCall_call_id provider_of_def)
    qed
  qed
  with field
  show "json_field (snd (place_route tw ex now rnd now' rnd' to_num audio caller)) ''provider''
              \<in> {Some (JStr ''twilio''), Some (JStr ''twilio_sim'')}"
    by auto
qed

theorem place_route_fallback_unreachable_witness:
  "http_status (snd (place_route
      (TwilioService_new ''AC01'' ''token'' ''+15550001111'' []
         (\<lambda>sid token. Some \<lparr>calls_create = (\<lambda>args. Some ''CA0123''),
                               calls_fetch = (\<lambda>i. None)\<rparr>))
      (ExotelService_new [] [] [] [] [] (\<lambda>p. None) (\<lambda>i. None))
      1000 ''abc'' 1001 ''def'' (Some ''9876543210'') (Some ''/audio/a.mp3'') None)) = 200
   \<and> json_field (snd (place_route
      (TwilioService_new ''AC01'' ''token'' ''+15550001111'' []
         (\<lambda>sid token. Some \<lparr>calls_create = (\<lambda>args. Some ''CA0123''),
                               calls_fetch = (\<lambda>i. None)\<rparr>))
      (ExotelService_new [] [] [] [] [] (\<lambda>p. None) (\<lambda>i. None))
      1000 ''abc'' 1001 ''def'' (Some ''9876543210'') (Some ''/audio/a.mp3'') None)) ''provider''
     \<in> {Some (JStr ''twilio''), Some (JStr ''twilio_sim'')}
   \<and> Exotel \<notin> set (fst (place_route
      (TwilioService_new ''AC01'' ''token'' ''+15550001111'' []
         (\<lambda>sid token. Some \<lparr>calls_create = (\<lambda>args. Some ''CA0123''),
                               calls_fetch = (\<lambda>i. None)\<rparr>))
      (ExotelService_new [] [] [] [] [] (\<lambda>p. None) (\<lambda>i. None))
      1000 ''abc'' 1001 ''def'' (Some ''9876543210'') (Some ''/audio/a.mp3'') None))"
proof -
  define tw where "tw = TwilioService_new ''AC01'' ''token'' ''+15550001111'' []
         (\<lambda>sid token. Some \<lparr>calls_create = (\<lambda>args. Some ''CA0123''),
                               calls_fetch = (\<lambda>i. None)\<rparr>)"
  define ex where "ex = ExotelService_new [] [] [] [] [] (\<lambda>p. None) (\<lambda>i. None)"
  have sids: "\<forall>c args sid. tw_client tw = Some c \<and> calls_create c args = Some sid
                \<longrightarrow> startsWith sid ''CA''"
    by (auto simp: tw_def TwilioService_new_def startsWith_def)
  have ok: "http_status (snd (place_route tw ex 1000 ''abc'' 1001 ''def''
              (Some ''9876543210'') (Some ''/audio/a.mp3'') None)) = 200"
    by (simp add: place_route_unfold Let_def)
  show ?thesis
    using sids ok
      place_route_fallback_unreachable [of tw 1000 "''abc''"
        "\<lparr>to_number = ''9876543210'', audio_url = ''/audio/a.mp3'', caller_id = None\<rparr>"
        ex 1001 "''def''" "Some ''9876543210''" "Some ''/audio/a.mp3''" None ex 1001 "''def''"]
    unfolding tw_def ex_def by blast
qed











lemma writeFile_stores:
  "writeFile fs dir name bytes now = Some dir' \<Longrightarrow> name \<in> fst ` set dir'"
  by (auto simp: writeFile_def split: if_splits)

lemma generateMockAudio_cases:
  "generateMockAudio fs dir uuid now req =
     (if write_fails fs (''mock_tts_'' @ uuid @ ''_'' @ show_nat now @ ''.mp3'')
      then (\<lparr>tts_success = False, tts_audio_url = None, tts_filename = None,
             tts_error = Some ''Failed to generate mock audio''\<rparr>, dir)
      else (\<lparr>tts_success = True,
             tts_audio_url = Some (''/audio/'' @ ''mock_tts_'' @ uuid @ ''_'' @ show_nat now @ ''.mp3''),
             tts_filename = Some (''mock_tts_'' @ uuid @ ''_'' @ show_nat now @ ''.mp3''),
             tts_error = None\<rparr>,
            the (writeFile fs dir (''mock_tts_'' @ uuid @ ''_'' @ show_nat now @ ''.mp3'')
                   mockAudioData now)))"
  by (simp add: generateMockAudio_def writeFile_def Let_def)

lemma generateMockAudio_result:
  assumes "generateMockAudio fs dir uuid now req = (r, dir')"
  shows "(tts_success r \<longleftrightarrow> \<not> write_fails fs (''mock_tts_'' @ uuid @ ''_'' @ show_nat now @ ''.mp3''))
       \<and> (tts_success r \<longrightarrow>
            (\<exists>fname. fname \<noteq> [] \<and> tts_filename r = Some fname
               \<and> tts_audio_url r = Some (''/audio/'' @ fname) \<and> fname \<in> fst ` set dir'))
       \<and> (\<not> tts_success r \<longrightarrow>
            tts_audio_url r = None \<and> tts_filename r = None
            \<and> tts_error r = Some ''Failed to generate mock audio'' \<and> dir' = dir)"
  using assms
  by (auto simp: generateMockAudio_def Let_def writeFile_def split: if_splits)

lemma generateSpeech_cases:
  "generateSpeech svc fs dir uuid now uuid' now' req = generateMockAudio fs dir uuid' now' req
   \<or> (el_apiKey svc \<noteq> []
      \<and> \<not> write_fails fs (''tts_'' @ uuid @ ''_'' @ show_nat now @ ''.mp3'')
      \<and> (\<exists>bytes dir'.
            writeFile fs dir (''tts_'' @ uuid @ ''_'' @ show_nat now @ ''.mp3'') bytes now = Some dir'
            \<and> generateSpeech svc fs dir uuid now uuid' now' req =
                (\<lparr>tts_success = True,
                  tts_audio_url = Some (''/audio/'' @ ''tts_'' @ uuid @ ''_'' @ show_nat now @ ''.mp3''),
                  tts_filename = Some (''tts_'' @ uuid @ ''_'' @ show_nat now @ ''.mp3''),
                  tts_error = None\<rparr>, dir')))"
  by (auto simp: generateSpeech_def Let_def writeFile_def split: option.splits)

text \<open>
  C7. For every text and voice id, with or without an API key and whatever the remote
  service answers, \<open>generateSpeech\<close> returns \<open>success: true\<close> with a non-empty
  \<open>filename\<close>, the \<open>audio_url\<close> \<open>/audio/<filename>\<close> and that file in the audio
  directory, unless the write of the stub file fails: a result with \<open>success: false\<close>
  means that this write was tried and failed, and it names no audio. Without an API key and
  after a failed remote call the result is the stub's. \<open>POST /api/voice/generate\<close> with
  a text of 1 to 5000 characters and a voice id answers 200 with an \<open>audio_url\<close> when
  the stub can be written.
\<close>

theorem generateSpeech_degrades_to_stub:
  "(\<not> write_fails fs (''mock_tts_'' @ uuid' @ ''_'' @ show_nat now' @ ''.mp3'') \<longrightarrow>
      tts_success (fst (generateSpeech svc fs dir uuid now uuid' now' req)))
   \<and> (tts_success (fst (generateSpeech svc fs dir uuid now uuid' now' req)) \<longrightarrow>
        (\<exists>fname. fname \<noteq> []
           \<and> tts_filename (fst (generateSpeech svc fs dir uuid now uuid' now' req)) = Some fname
           \<and> tts_audio_url (fst (generateSpeech svc fs dir uuid now uuid' now' req))
               = Some (''/audio/'' @ fname)
           \<and> fname \<in> fst ` set (snd (generateSpeech svc fs dir uuid now uuid' now' req))))
   \<and> (\<not> tts_success (fst (generateSpeech svc fs dir uuid now uuid' now' req)) \<longrightarrow>
        write_fails fs (''mock_tts_'' @ uuid' @ ''_'' @ show_nat now' @ ''.mp3'')
        \<and> tts_audio_url (fst (generateSpeech svc fs dir uuid now uuid' now' req)) = None
        \<and> tts_error (fst (generateSpeech svc fs dir uuid now uuid' now' req))
            = Some ''Failed to generate mock audio'')
   \<and> (el_apiKey svc = []
        \<or> el_post svc (if startsWith (voice_id req) ''mock-'' then ''pNInz6obpgDQGcFmaJgB''
                         else voice_id req, tts_text req) = None \<longrightarrow>
        generateSpeech svc fs dir uuid now uuid' now' req
          = generateMockAudio fs dir uuid' now' req)
   \<and> (txt \<noteq> [] \<and> length txt \<le> 5000 \<and> voice \<noteq> []
        \<and> \<not> write_fails fs (''mock_tts_'' @ uuid' @ ''_'' @ show_nat now' @ ''.mp3'') \<longrightarrow>
        http_status (fst (generate_route svc fs dir uuid now uuid' now' (Some txt) (Some voice)))
          = 200
        \<and> (\<exists>url. json_field
                     (fst (generate_route svc fs dir uuid now uuid' now' (Some txt) (Some voice)))
                     ''audio_url'' = Some (JStr url) \<and> url \<noteq> []))"
proof -
  obtain r dir' where g: "generateSpeech svc fs dir uuid now uuid' now' req = (r, dir')"
    by (cases "generateSpeech svc fs dir uuid now uuid' now' req")
  obtain m dm where mk: "generateMockAudio fs dir uuid' now' req = (m, dm)"
    by (cases "generateMockAudio fs dir uuid' now' req")
  note mock = generateMockAudio_result [OF mk]
  have main: "(\<not> write_fails fs (''mock_tts_'' @ uuid' @ ''_'' @ show_nat now' @ ''.mp3'')
                 \<longrightarrow> tts_success r)
       \<and> (tts_success r \<longrightarrow>
            (\<exists>fname. fname \<noteq> [] \<and> tts_filename r = Some fname
               \<and> tts_audio_url r = Some (''/audio/'' @ fname) \<and> fname \<in> fst ` set dir'))
       \<and> (\<not> tts_success r \<longrightarrow>
            write_fails fs (''mock_tts_'' @ uuid' @ ''_'' @ show_nat now' @ ''.mp3'')
            \<and> tts_audio_url r = None
            \<and> tts_error r = Some ''Failed to generate mock audio'')"
    using generateSpeech_cases [of svc fs dir uuid now uuid' now' req]
  proof
    assume "generateSpeech svc fs dir uuid now uuid' now' req
              = generateMockAudio fs dir uuid' now' req"
    with g mk have "r = m" "dir' = dm" by simp_all
    with mock show ?thesis by blast
  next
    assume "el_apiKey svc \<noteq> []
      \<and> \<not> write_fails fs (''tts_'' @ uuid @ ''_'' @ show_nat now @ ''.mp3'')
      \<and> (\<exists>bytes dir'.
            writeFile fs dir (''tts_'' @ uuid @ ''_'' @ show_nat now @ ''.mp3'') bytes now = Some dir'
            \<and> generateSpeech svc fs dir uuid now uuid' now' req =
                (\<lparr>tts_success = True,
                  tts_audio_url = Some (''/audio/'' @ ''tts_'' @ uuid @ ''_'' @ show_nat now @ ''.mp3''),
                  tts_filename = Some (''tts_'' @ uuid @ ''_'' @ show_nat now @ ''.mp3''),
                  tts_error = None\<rparr>, dir'))"
    then obtain bytes d where
      w: "writeFile fs dir (''tts_'' @ uuid @ ''_'' @ show_nat now @ ''.mp3'') bytes now = Some d"
      and e: "generateSpeech svc fs dir uuid now uuid' now' req =
                (\<lparr>tts_success = True,
                  tts_audio_url = Some (''/audio/'' @ ''tts_'' @ uuid @ ''_'' @ show_nat now @ ''.mp3''),
                  tts_filename = Some (''tts_'' @ uuid @ ''_'' @ show_nat now @ ''.mp3''),
                  tts_error = None\<rparr>, d)"
      by blast
    from e g have r: "r = \<lparr>tts_success = True,
                  tts_audio_url = Some (''/audio/'' @ ''tts_'' @ uuid @ ''_'' @ show_nat now @ ''.mp3''),
                  tts_filename = Some (''tts_'' @ uuid @ ''_'' @ show_nat now @ ''.mp3''),
                  tts_error = None\<rparr>" and d: "dir' = d"
      by simp_all
    from writeFile_stores [OF w] show ?thesis
      by (simp add: r d)
  qed
  have stub: "generateSpeech svc fs dir uuid now uuid' now' req
                = generateMockAudio fs dir uuid' now' req"
    if "el_apiKey svc = []
        \<or> el_post svc (if startsWith (voice_id req) ''mock-'' then ''pNInz6obpgDQGcFmaJgB''
                         else voice_id req, tts_text req) = None"
    using that by (auto simp: generateSpeech_def Let_def)
  have route: "http_status (fst (generate_route svc fs dir uuid now uuid' now' (Some txt) (Some voice)))
          = 200
        \<and> (\<exists>url. json_field
                     (fst (generate_route svc fs dir uuid now uuid' now' (Some txt) (Some voice)))
                     ''audio_url'' = Some (JStr url) \<and> url \<noteq> [])"
    if a: "txt \<noteq> [] \<and> length txt \<le> 5000 \<and> voice \<noteq> []
        \<and> \<not> write_fails fs (''mock_tts_'' @ uuid' @ ''_'' @ show_nat now' @ ''.mp3'')"
  proof -
    obtain q dq where gq: "generateSpeech svc fs dir uuid now uuid' now'
                             \<lparr>tts_text = txt, voice_id = voice\<rparr> = (q, dq)"
      by (cases "generateSpeech svc fs dir uuid now uuid' now' \<lparr>tts_text = txt, voice_id = voice\<rparr>")
    have "generateSpeech svc fs dir uuid now uuid' now' \<lparr>tts_text = txt, voice_id = voice\<rparr>
            = generateMockAudio fs dir uuid' now' \<lparr>tts_text = txt, voice_id = voice\<rparr>
          \<or> tts_success q \<and> (\<exists>u. tts_audio_url q = Some (''/audio/'' @ u))"
      using generateSpeech_cases [of svc fs dir uuid now uuid' now'
                                    "\<lparr>tts_text = txt, voice_id = voice\<rparr>"] gq
      by auto
    then have q: "tts_success q \<and> (\<exists>u. tts_audio_url q = Some (''/audio/'' @ u))"
      using a gq by (auto simp: generateMockAudio_cases)
    then obtain u where u: "tts_audio_url q = Some (''/audio/'' @ u)" by blast
    have "fst (generate_route svc fs dir uuid now uuid' now' (Some txt) (Some voice)) =
            \<lparr>http_status = 200,
             http_body = Json ([(''success'', JBool True)]
                               @ opt_key ''audio_url'' (tts_audio_url q)
                               @ opt_key ''filename'' (tts_filename q)
                               @ [(''message'', JStr ''Speech generated successfully'')])\<rparr>"
      using a q by (simp add: generate_route_def gq)
    then show ?thesis
      by (simp add: u json_field_def)
  qed
  from main stub route show ?thesis
    by (simp only: g fst_conv snd_conv) blast
qed

theorem generateSpeech_degrades_to_stub_witness:
  "\<not> write_fails \<lparr>write_fails = (\<lambda>n. False), remove_fails = (\<lambda>n. False), readdir_fails = False\<rparr>
        (''mock_tts_'' @ ''u2'' @ ''_'' @ show_nat 1001 @ ''.mp3'')
   \<and> tts_success (fst (generateSpeech
        \<lparr>el_apiKey = ''key'', el_baseUrl = ''https://api.elevenlabs.io/v1'',
         el_post = (\<lambda>a. None)\<rparr>
        \<lparr>write_fails = (\<lambda>n. False), remove_fails = (\<lambda>n. False), readdir_fails = False\<rparr>
        [] ''u1'' 1000 ''u2'' 1001 \<lparr>tts_text = ''Hello World'', voice_id = ''mock-voice-1''\<rparr>))
   \<and> http_status (fst (generate_route
        \<lparr>el_apiKey = ''key'', el_baseUrl = ''https://api.elevenlabs.io/v1'',
         el_post = (\<lambda>a. None)\<rparr>
        \<lparr>write_fails = (\<lambda>n. False), remove_fails = (\<lambda>n. False), readdir_fails = False\<rparr>
        [] ''u1'' 1000 ''u2'' 1001 (Some ''Hello World'') (Some ''mock-voice-1''))) = 200"
proof -
  have w: "\<not> write_fails \<lparr>write_fails = (\<lambda>n. False), remove_fails = (\<lambda>n. False),
                           readdir_fails = False\<rparr>
             (''mock_tts_'' @ ''u2'' @ ''_'' @ show_nat 1001 @ ''.mp3'')"
    by simp
  have t: "''Hello World'' \<noteq> [] \<and> length ''Hello World'' \<le> 5000 \<and> ''mock-voice-1'' \<noteq> []"
    by simp
  show ?thesis
    using w t
      generateSpeech_degrades_to_stub [of
        "\<lparr>write_fails = (\<lambda>n. False), remove_fails = (\<lambda>n. False), readdir_fails = False\<rparr>"
        "''u2''" 1001
        "\<lparr>el_apiKey = ''key'', el_baseUrl = ''https://api.elevenlabs.io/v1'',
          el_post = (\<lambda>a. None)\<rparr>"
        "[]" "''u1''" 1000 "\<lparr>tts_text = ''Hello World'', voice_id = ''mock-voice-1''\<rparr>"
        "''Hello World''" "''mock-voice-1''"]
    by blast
qed

lemma cleanup_loop_no_faults:
  assumes "\<forall>n. \<not> remove_fails fs n" and "distinct (map fst (kept @ rest))"
  shows "fst (cleanup_loop fs now maxAge (map fst rest) (kept @ rest) lg)
           = kept @ filter (\<lambda>(n, f). \<not> now - af_mtime f > maxAge) rest"
  using assms(2)
proof (induction rest arbitrary: kept lg)
  case Nil
  then show ?case by simp
next
  case (Cons e rest)
  obtain n f where e: "e = (n, f)" by (cases e)
  from Cons.prems have nk: "n \<notin> fst ` set kept" and nr: "n \<notin> fst ` set rest"
    by (auto simp: e)
  have look: "map_of (kept @ (n, f) # rest) n = Some f"
    using nk by (simp add: map_of_append map_add_def map_of_eq_None_iff [THEN iffD2])
  show ?case
  proof (cases "now - af_mtime f > maxAge")
    case True
    have rm: "filter (\<lambda>(m, g). m \<noteq> n) kept = kept" "filter (\<lambda>(m, g). m \<noteq> n) rest = rest"
      using nk nr by (force simp: filter_id_conv)+
    from Cons.prems have "distinct (map fst (kept @ rest))"
      by (simp add: e)
    from Cons.IH [OF this] True show ?thesis
      using assms(1) by (simp add: e look rm del: map_of_append)
  next
    case False
    from Cons.prems have "distinct (map fst ((kept @ [(n, f)]) @ rest))"
      by (simp add: e)
    from Cons.IH [OF this] False show ?thesis
      by (simp add: e look del: map_of_append)
  qed
qed

lemma cleanupOldFiles_no_faults:
  assumes "\<forall>n. \<not> remove_fails fs n" and "\<not> readdir_fails fs" and "distinct (map fst dir)"
  shows "fst (cleanupOldFiles fs dir now h)
           = filter (\<lambda>(n, f). \<not> int now - af_mtime f > h * 60 * 60 * 1000) dir"
  using cleanup_loop_no_faults [OF assms(1), of "[]" dir "int now" "h * 60 * 60 * 1000" "[]"]
    assms(2,3)
  by (simp add: cleanupOldFiles_def Let_def)

text \<open>
  C3 at \<open>hours=0\<close>: \<open>parseInt("0") || 24\<close> is 24, so the route sweeps with a maximum
  age of 24 hours. A file that is one hour old is still there after
  \<open>GET /api/voice/cleanup?hours=0\<close>, and the response says \<open>success: true\<close> for
  24 hours.
\<close>

theorem cleanup_route_hours_zero:
  "cleanup_hours (Some ''0'') = 24
   \<and> cleanup_route \<lparr>write_fails = (\<lambda>n. False), remove_fails = (\<lambda>n. False), readdir_fails = False\<rparr>
        [(''mock_tts_u_0.mp3'', \<lparr>af_mtime = 0, af_data = mockAudioData\<rparr>)] 3600000 (Some ''0'')
      = (\<lparr>http_status = 200,
          http_body = Json [(''success'', JBool True),
                            (''message'', JStr ''Cleaned up audio files older than 24 hours'')]\<rparr>,
         [(''mock_tts_u_0.mp3'', \<lparr>af_mtime = 0, af_data = mockAudioData\<rparr>)], [])"
proof -
  have h: "cleanup_hours (Some ''0'') = 24"
    by (simp add: cleanup_hours_def parseInt_def startsWith_def is_ws_def is_radix_digit_def
          digit_val_def radix_value_def)
  have s: "show_int 24 = ''24''"
    by (simp add: show_int_def show_nat.simps digit_char_def)
  show ?thesis
    by (simp add: h s cleanup_route_def cleanupOldFiles_def Let_def)
qed



































end
